theory Spec2Isabelle
  imports Main
begin

section \<open>Python strings\<close>

text \<open>
  A Python \<open>str\<close> is modelled as a \<open>string\<close>: a list of code points below 256.
  The functions of this section are the \<open>str\<close> methods the scrapers call.
\<close>

definition py_isspace :: "char \<Rightarrow> bool" where
  "py_isspace c = (of_char c \<in> {9, 10, 11, 12, 13, 28, 29, 30, 31, 32, 133, 160 :: nat})"

text \<open>\<open>s.strip()\<close>: leading and trailing whitespace removed.\<close>

definition py_strip :: "string \<Rightarrow> string" where
  "py_strip s = rev (dropWhile py_isspace (rev (dropWhile py_isspace s)))"

text \<open>\<open>s.startswith(p)\<close>.\<close>

definition starts_with :: "string \<Rightarrow> string \<Rightarrow> bool" where
  "starts_with p s = (take (length p) s = p)"

text \<open>\<open>sub in s\<close>: \<open>sub\<close> occurs in \<open>s\<close> as a contiguous substring.\<close>

fun py_contains :: "string \<Rightarrow> string \<Rightarrow> bool" where
  "py_contains sub [] = (sub = [])"
| "py_contains sub (c # cs) = (starts_with sub (c # cs) \<or> py_contains sub cs)"

text \<open>
  \<open>s.split(sep)\<close> for a non-empty separator: the string is cut at each leftmost
  occurrence of \<open>sep\<close>, scanning from the left; \<open>acc\<close> holds the current piece
  reversed. Both call sites pass a non-empty literal (Python raises \<open>ValueError\<close> on an
  empty separator, which never happens there).
\<close>

function split_acc :: "string \<Rightarrow> string \<Rightarrow> string \<Rightarrow> string list" where
  "split_acc sep acc [] = [rev acc]"
| "split_acc sep acc (c # cs) =
     (if sep \<noteq> [] \<and> starts_with sep (c # cs)
      then rev acc # split_acc sep [] (drop (length sep) (c # cs))
      else split_acc sep (c # acc) cs)"
  by pat_completeness auto
termination
  by (relation "measure (\<lambda>(sep, acc, s). length s)") auto

definition py_split :: "string \<Rightarrow> string \<Rightarrow> string list" where
  "py_split sep s = split_acc sep [] s"

text \<open>
  \<open>s.replace(old, new)\<close>: every non-overlapping occurrence of \<open>old\<close>, leftmost first,
  becomes \<open>new\<close>; an empty \<open>old\<close> matches before every character and at the end.
\<close>

function replace_go :: "string \<Rightarrow> string \<Rightarrow> string \<Rightarrow> string" where
  "replace_go old new [] = []"
| "replace_go old new (c # cs) =
     (if old \<noteq> [] \<and> starts_with old (c # cs)
      then new @ replace_go old new (drop (length old) (c # cs))
      else c # replace_go old new cs)"
  by pat_completeness auto
termination
  by (relation "measure (\<lambda>(old, new, s). length s)") auto

definition py_replace :: "string \<Rightarrow> string \<Rightarrow> string \<Rightarrow> string" where
  "py_replace old new s =
     (if old = [] then new @ concat (map (\<lambda>c. c # new) s) else replace_go old new s)"

section \<open>Exceptions and exits\<close>

text \<open>
  What a Python call can do instead of returning: raise an exception that
  \<open>except Exception\<close> catches, or raise \<open>SystemExit\<close> (from \<open>sys.exit(n)\<close> or
  \<open>exit(n)\<close>), which \<open>except Exception\<close> does not catch and which ends the process
  with status \<open>n\<close>.
\<close>

datatype py_exception =
  IndexError | TransportError | HTTPStatusError | JSONDecodeError | KeyError
  | RetryError | QueryError

datatype raised = Exception py_exception | SystemExit nat

type_synonym 'a result = "raised + 'a"

section \<open>The item-details extractor (scrape_item_details)\<close>

text \<open>The dictionary \<open>item_details_column_names\<close>: twelve fixed keys.\<close>

record item_details =
  nc_code :: string
  brand_name :: string
  effective_date :: string
  bottle_size :: string
  proof_value :: string
  bottles_per_case :: string
  upc :: string
  retail_price :: string
  mxb_price :: string
  case_cost_less_bailment :: string
  distiller :: string
  product_image_url :: string

definition item_details_column_names :: item_details where
  "item_details_column_names =
     \<lparr>nc_code = [], brand_name = [], effective_date = [], bottle_size = [], proof_value = [],
      bottles_per_case = [], upc = [], retail_price = [], mxb_price = [],
      case_cost_less_bailment = [], distiller = [], product_image_url = []\<rparr>"

text \<open>
  The parsed page, as far as the scraper looks at it. An \<open>element\<close> is a direct child
  tag of the container: whether \<open>element.find("h3", class_="mt-5 pt-3")\<close> finds a tag,
  \<open>element.get("class")\<close> and \<open>element.text\<close>. \<open>img_lookup\<close> is the outcome of
  the image search: no \<open>div class="row" style="padding:15px;"\<close>, such a div without an
  \<open>img\<close>, an \<open>img\<close> without \<open>src\<close>, or the \<open>src\<close> value.
\<close>

record element =
  has_h3 :: bool
  classes :: "string list option"
  el_text :: string

datatype img_lookup = NoImgDiv | NoImg | ImgNoSrc | ImgSrc string

record document =
  containers :: "element list list"
  img :: img_lookup

text \<open>\<open>session.get(url)\<close>: the request raises, or a response with a status and a page.\<close>

datatype http_result = RequestFails | Response nat document

datatype log_entry = LogInfo string | LogWarning string | LogError string

definition delimiter :: string where
  "delimiter = '' Effective Date: ''"

text \<open>
  The heading branch: \<open>h3_tag_text_list[1]\<close> raises \<open>IndexError\<close> when the split gives
  one piece only.
\<close>

definition heading :: "string \<Rightarrow> item_details \<Rightarrow> item_details result" where
  "heading txt r =
     (case py_split delimiter (py_strip txt) of
        a # b # _ \<Rightarrow> Inr (r\<lparr>brand_name := a, effective_date := b\<rparr>)
      | _ \<Rightarrow> Inl (Exception IndexError))"

text \<open>The row branch: two label/value pairs, one pair, or nothing.\<close>

definition row :: "string \<Rightarrow> (string \<rightharpoonup> string) \<Rightarrow> (string \<rightharpoonup> string)" where
  "row txt vals =
     (let new_line_div_tag_text =
            filter (\<lambda>item. item \<noteq> []) (py_split [CHR 0x0A] (py_strip txt))
      in if length new_line_div_tag_text = 4
         then (vals(py_replace '':'' [] (new_line_div_tag_text ! 0) \<mapsto> new_line_div_tag_text ! 1))
                (py_replace '':'' [] (new_line_div_tag_text ! 2) \<mapsto> new_line_div_tag_text ! 3)
         else if length new_line_div_tag_text = 2
         then vals(py_replace '':'' [] (new_line_div_tag_text ! 0) \<mapsto> new_line_div_tag_text ! 1)
         else vals)"

text \<open>The loop over the container's child tags.\<close>

fun element_loop ::
  "element list \<Rightarrow> item_details \<times> (string \<rightharpoonup> string)
     \<Rightarrow> (item_details \<times> (string \<rightharpoonup> string)) result" where
  "element_loop [] st = Inr st"
| "element_loop (e # es) (r, vals) =
     (if has_h3 e
      then (case heading (el_text e) r of
              Inl x \<Rightarrow> Inl x
            | Inr r' \<Rightarrow> element_loop es (r', vals))
      else if classes e = Some [''row'']
      then element_loop es (r, row (el_text e) vals)
      else element_loop es (r, vals))"

definition product_image :: "img_lookup \<Rightarrow> item_details \<Rightarrow> item_details" where
  "product_image i r =
     (case i of
        ImgSrc src \<Rightarrow> r\<lparr>product_image_url := ''https://abc2.nc.gov'' @ src\<rparr>
      | _ \<Rightarrow> r)"

text \<open>The catalog-code transform: \<open>nc_code[:2] + "-" + nc_code[2:]\<close>.\<close>

definition nc_code_transform :: "string \<Rightarrow> string" where
  "nc_code_transform c = take 2 c @ ''-'' @ drop 2 c"

text \<open>"Clean up and assign values to the dictionary": nine guarded assignments.\<close>

definition assign_values :: "(string \<rightharpoonup> string) \<Rightarrow> item_details \<Rightarrow> item_details" where
  "assign_values vals r0 =
     (let r1 = (case vals ''NC Code'' of Some v \<Rightarrow> r0\<lparr>nc_code := nc_code_transform v\<rparr> | None \<Rightarrow> r0);
          r2 = (case vals ''Bottle Size'' of Some v \<Rightarrow> r1\<lparr>bottle_size := v\<rparr> | None \<Rightarrow> r1);
          r3 = (case vals ''Proof'' of Some v \<Rightarrow> r2\<lparr>proof_value := v\<rparr> | None \<Rightarrow> r2);
          r4 = (case vals ''Bottles per Case'' of Some v \<Rightarrow> r3\<lparr>bottles_per_case := v\<rparr> | None \<Rightarrow> r3);
          r5 = (case vals ''UPC'' of Some v \<Rightarrow> r4\<lparr>upc := v\<rparr> | None \<Rightarrow> r4);
          r6 = (case vals ''Retail Price'' of Some v \<Rightarrow> r5\<lparr>retail_price := v\<rparr> | None \<Rightarrow> r5);
          r7 = (case vals ''Mixed Beverage Price'' of Some v \<Rightarrow> r6\<lparr>mxb_price := v\<rparr> | None \<Rightarrow> r6);
          r8 = (case vals ''Case Cost Less Bailment'' of
                  Some v \<Rightarrow> r7\<lparr>case_cost_less_bailment := v\<rparr> | None \<Rightarrow> r7)
      in (case vals ''Distiller'' of Some v \<Rightarrow> r8\<lparr>distiller := v\<rparr> | None \<Rightarrow> r8))"

text \<open>
  The body of the \<open>try\<close> block, with the lines it logs. A status other than 200 calls
  \<open>sys.exit(1)\<close>; a page without the container returns the initial dictionary.
\<close>

definition try_block :: "string \<Rightarrow> http_result \<Rightarrow> log_entry list \<times> item_details result" where
  "try_block url resp =
     (case resp of
        RequestFails \<Rightarrow> ([], Inl (Exception TransportError))
      | Response status doc \<Rightarrow>
          if status \<noteq> 200 then ([LogInfo url, LogError url], Inl (SystemExit 1))
          else (case containers doc of
                  [] \<Rightarrow> ([LogInfo url, LogWarning url], Inr item_details_column_names)
                | product_listing_divs # _ \<Rightarrow>
                    (case element_loop product_listing_divs (item_details_column_names, Map.empty) of
                       Inl x \<Rightarrow> ([LogInfo url], Inl x)
                     | Inr (r, vals) \<Rightarrow>
                         ([LogInfo url], Inr (assign_values vals (product_image (img doc) r))))))"

text \<open>
  One call of the undecorated function: \<open>except Exception\<close> logs the error and calls
  \<open>sys.exit(1)\<close>; a \<open>SystemExit\<close> raised inside the \<open>try\<close> passes through.
\<close>

definition scrape_attempt :: "string \<Rightarrow> http_result \<Rightarrow> log_entry list \<times> item_details result" where
  "scrape_attempt url resp =
     (case try_block url resp of
        (lg, Inl (Exception e)) \<Rightarrow> (lg @ [LogError url], Inl (SystemExit 1))
      | (lg, other) \<Rightarrow> (lg, other))"

section \<open>The retry decorator\<close>

text \<open>
  The policy behind \<open>@retry(stop=stop_after_attempt(n), wait=wait_exponential(multiplier,
  min, max))\<close>: a failure is transient or permanent, and the decision is to retry after
  a delay or to give up.
\<close>

datatype failure_kind = Transient | Permanent

datatype decision = RetryAfter nat | GiveUp

record retry_policy =
  multiplier :: nat
  min_wait :: nat
  max_wait :: nat
  stop_after_attempt :: nat

text \<open>
  Modelled from the spec: the retry library that the decorators call is not part of the
  sources, which give its parameters only. The delay is \<open>base * 2^attempt\<close>, clamped to
  the window from \<open>min\<close> to \<open>max\<close>.
\<close>

definition wait_exponential :: "retry_policy \<Rightarrow> nat \<Rightarrow> nat" where
  "wait_exponential p attempt =
     max (min_wait p) (min (multiplier p * 2 ^ attempt) (max_wait p))"

text \<open>
  Modelled from the spec: the decision function \<open>decide(attempt, failure_kind)\<close> of the
  retry library, which is not part of the sources. A permanent failure surfaces at once,
  a transient one once the attempt bound is reached; before that the policy retries after
  the backoff delay.
\<close>

definition decide :: "retry_policy \<Rightarrow> nat \<Rightarrow> failure_kind \<Rightarrow> decision" where
  "decide p attempt kind =
     (if kind = Permanent \<or> attempt \<ge> stop_after_attempt p then GiveUp
      else RetryAfter (wait_exponential p attempt))"

text \<open>The two decorators of the sources: the item page and the image search.\<close>

definition item_details_policy :: retry_policy where
  "item_details_policy = \<lparr>multiplier = 1, min_wait = 4, max_wait = 10, stop_after_attempt = 3\<rparr>"

definition image_search_policy :: retry_policy where
  "image_search_policy = \<lparr>multiplier = 1, min_wait = 4, max_wait = 15, stop_after_attempt = 30\<rparr>"

text \<open>
  An exception that \<open>except Exception\<close> would catch is a transient failure for the
  decorator; \<open>SystemExit\<close> is no \<open>Exception\<close>, is never retried and comes out as it
  is. At the bound a transient failure comes out as the decorator's \<open>RetryError\<close>.
\<close>

fun failure_kind_of :: "raised \<Rightarrow> failure_kind" where
  "failure_kind_of (Exception e) = Transient"
| "failure_kind_of (SystemExit n) = Permanent"

fun surfaced :: "raised \<Rightarrow> raised" where
  "surfaced (Exception e) = Exception RetryError"
| "surfaced (SystemExit n) = SystemExit n"

text \<open>
  The decorated call: \<open>fn k\<close> is the outcome of attempt \<open>k\<close> (counted from 1); the
  result carries the number of attempts made.
\<close>

function retry_from :: "retry_policy \<Rightarrow> (nat \<Rightarrow> 'a result) \<Rightarrow> nat \<Rightarrow> nat \<times> 'a result" where
  "retry_from p fn attempt_number =
     (case fn attempt_number of
        Inr v \<Rightarrow> (attempt_number, Inr v)
      | Inl x \<Rightarrow>
          (case decide p attempt_number (failure_kind_of x) of
             GiveUp \<Rightarrow> (attempt_number, Inl (surfaced x))
           | RetryAfter delay \<Rightarrow> retry_from p fn (Suc attempt_number)))"
  by pat_completeness auto
termination
  by (relation "measure (\<lambda>(p, fn, attempt_number). stop_after_attempt p - attempt_number)")
     (auto simp: decide_def split: if_splits)

definition retry :: "retry_policy \<Rightarrow> (nat \<Rightarrow> 'a result) \<Rightarrow> nat \<times> 'a result" where
  "retry p fn = retry_from p fn 1"

section \<open>Fetching a batch (process_urls)\<close>

text \<open>
  The network: the outcome of the request of attempt \<open>k\<close> for a URL. The decorated
  \<open>scrape_item_details\<close> is the scraper under the item-page policy.
\<close>

type_synonym network = "nat \<Rightarrow> string \<Rightarrow> http_result"

definition scrape_item_details :: "network \<Rightarrow> string \<Rightarrow> nat \<times> item_details result" where
  "scrape_item_details http url = retry item_details_policy (\<lambda>k. snd (scrape_attempt url (http k url)))"

text \<open>
  \<open>asyncio.gather(*tasks)\<close>: the results in the order of the tasks, or the exception of
  a task that raised. Which task's exception comes out depends on the order of completion;
  the model takes the first in the list (every failure of the scraper is the same
  \<open>SystemExit 1\<close>).
\<close>

fun gather :: "'a result list \<Rightarrow> 'a list result" where
  "gather [] = Inr []"
| "gather (t # ts) =
     (case t of
        Inl x \<Rightarrow> Inl x
      | Inr v \<Rightarrow> (case gather ts of Inl x \<Rightarrow> Inl x | Inr vs \<Rightarrow> Inr (v # vs)))"

text \<open>\<open>process_urls\<close> of scrape_item_details.py: one task per URL, gathered.\<close>

definition process_urls :: "network \<Rightarrow> string list \<Rightarrow> item_details list result" where
  "process_urls http urls = gather (map (\<lambda>url. snd (scrape_item_details http url)) urls)"

text \<open>\<open>process_urls\<close> of replace_x_image_urls.py: a loop that appends each result.\<close>

fun process_urls_loop ::
  "network \<Rightarrow> string list \<Rightarrow> item_details list \<Rightarrow> item_details list result" where
  "process_urls_loop http [] results = Inr results"
| "process_urls_loop http (url # urls) results =
     (case snd (scrape_item_details http url) of
        Inl x \<Rightarrow> Inl x
      | Inr r \<Rightarrow> process_urls_loop http urls (results @ [r]))"

definition process_urls_x :: "network \<Rightarrow> string list \<Rightarrow> item_details list result" where
  "process_urls_x http urls = process_urls_loop http urls []"

section \<open>The script scrape_item_details.py\<close>

text \<open>
  What a run meets outside the program: the upstream query for the URLs, the network,
  the upload of the CSV to the bucket and the load job into the warehouse (each of the
  last two raises the given exception, or succeeds).
\<close>

record env =
  item_details_urls :: "py_exception + string list"
  http_of :: network
  upload :: "py_exception option"
  load_job :: "py_exception option"

text \<open>\<open>df_to_gcloud_storage_bucket\<close> catches every exception and prints it.\<close>

definition df_to_gcloud_storage_bucket :: "py_exception option \<Rightarrow> unit result" where
  "df_to_gcloud_storage_bucket up = (case up of Some e \<Rightarrow> Inr () | None \<Rightarrow> Inr ())"

definition load_csv_to_bigquery :: "py_exception option \<Rightarrow> unit result" where
  "load_csv_to_bigquery job = (case job of Some e \<Rightarrow> Inl (Exception e) | None \<Rightarrow> Inr ())"

text \<open>\<open>main()\<close>: the rows it loads, when it returns.\<close>

definition main :: "env \<Rightarrow> item_details list result" where
  "main e =
     (case item_details_urls e of
        Inl x \<Rightarrow> Inl (Exception x)
      | Inr urls \<Rightarrow>
          (case process_urls (http_of e) urls of
             Inl x \<Rightarrow> Inl x
           | Inr results \<Rightarrow>
               (case df_to_gcloud_storage_bucket (upload e) of
                  Inl x \<Rightarrow> Inl x
                | Inr _ \<Rightarrow>
                    (case load_csv_to_bigquery (load_job e) of
                       Inl x \<Rightarrow> Inl x
                     | Inr _ \<Rightarrow> Inr results))))"

text \<open>
  The \<open>__main__\<close> block: \<open>except Exception\<close> calls \<open>sys.exit(1)\<close>, a \<open>SystemExit\<close>
  from inside ends the process with its own status, a normal end is status 0.
\<close>

definition exit_status :: "env \<Rightarrow> nat" where
  "exit_status e =
     (case main e of
        Inr _ \<Rightarrow> 0
      | Inl (Exception x) \<Rightarrow> 1
      | Inl (SystemExit n) \<Rightarrow> n)"

section \<open>The image search (replace_missing_urls.py)\<close>








section \<open>The script replace_x_image_urls.py\<close>

text \<open>
  The run's surroundings: the rows of the module-level query (\<open>nc_code\<close> and
  \<open>item_details_url\<close>, which may be null), the network during the n-th call of
  \<open>replace_x_raw_image_urls\<close>, the outcome of the k-th update query of the loop
  (counted from 0) and of the final ETL query.
\<close>

type_synonym rows = "(string \<times> string option) list"

record xenv =
  df :: "py_exception + rows"
  http_in_pass :: "nat \<Rightarrow> network"
  update_job :: "nat \<Rightarrow> py_exception option"
  etl_job :: "py_exception option"

definition sentinel :: string where
  "sentinel = ''x-raw-image:''"

text \<open>The rows kept by \<open>if url and url.strip()\<close>.\<close>

definition valid_urls :: "rows \<Rightarrow> string list" where
  "valid_urls rs =
     concat (map (\<lambda>(nc, url). case url of
                                 None \<Rightarrow> []
                               | Some u \<Rightarrow> if u \<noteq> [] \<and> py_strip u \<noteq> [] then [u] else []) rs)"

definition replace_x_raw_image_urls ::
  "network \<Rightarrow> rows \<Rightarrow> (string list \<times> string list) result" where
  "replace_x_raw_image_urls http rs =
     (if valid_urls rs = [] then Inr ([], [])
      else (case process_urls_x http (valid_urls rs) of
              Inl x \<Rightarrow> Inl x
            | Inr results \<Rightarrow> Inr (map nc_code results, map product_image_url results)))"

definition update_query_template :: string where
  "update_query_template =
     [CHR 0x0A] @ ''            UPDATE `agile-planet-462621-j7`.nc_abc.backfill_missing_image_urls''
     @ [CHR 0x0A] @ ''                SET image_url = '' @ [CHR 0x27] @ ''{image_url}'' @ [CHR 0x27]
     @ [CHR 0x0A] @ ''            WHERE nc_code = '' @ [CHR 0x27] @ ''{nc_code}'' @ [CHR 0x27]
     @ [CHR 0x0A] @ ''            ''"

text \<open>
  The update loop. The variable \<open>update_query\<close> is assigned the result of its own
  \<open>replace\<close> calls, so each round starts from the text the round before has left.
  \<open>sent\<close> collects the query texts handed to the warehouse, \<open>k\<close> counts them.
\<close>

fun update_loop ::
  "(nat \<Rightarrow> py_exception option) \<Rightarrow> string \<Rightarrow> (string \<times> string) list \<Rightarrow> nat \<Rightarrow> string list
     \<Rightarrow> string list \<times> unit result" where
  "update_loop job update_query [] k sent = (sent, Inr ())"
| "update_loop job update_query ((nc, image_url) # rest) k sent =
     (let update_query' =
            py_replace ''{nc_code}'' nc (py_replace ''{image_url}'' image_url update_query)
      in (case job k of
            Some e \<Rightarrow> (sent @ [update_query'], Inl (Exception e))
          | None \<Rightarrow> update_loop job update_query' rest (Suc k) (sent @ [update_query'])))"

text \<open>
  The body of the \<open>try\<close>: one scrape pass, a second one when an image URL of the first
  contains the sentinel, then the updates. The result carries the number of scrape passes
  made (calls of \<open>replace_x_raw_image_urls\<close>) and the queries sent.
\<close>

definition try_body :: "xenv \<Rightarrow> rows \<Rightarrow> (nat \<times> string list) \<times> unit result" where
  "try_body e rs =
     (case replace_x_raw_image_urls (http_in_pass e 1) rs of
        Inl x \<Rightarrow> ((1, []), Inl x)
      | Inr (nc_code_list, image_url_list) \<Rightarrow>
          if list_ex (py_contains sentinel) image_url_list
          then (case replace_x_raw_image_urls (http_in_pass e 2) rs of
                  Inl x \<Rightarrow> ((2, []), Inl x)
                | Inr (nc_code_list2, image_url_list2) \<Rightarrow>
                    (case update_loop (update_job e) update_query_template
                            (zip nc_code_list2 image_url_list2) 0 [] of
                       (qs, out) \<Rightarrow> ((2, qs), out)))
          else (case update_loop (update_job e) update_query_template
                       (zip nc_code_list image_url_list) 0 [] of
                  (qs, out) \<Rightarrow> ((1, qs), out)))"

text \<open>
  The state of the run: scrape passes made, queries sent, the flag
  \<open>no_x_raw_image_urls\<close>, and the exit status once the process has ended.
  \<open>except Exception\<close> prints the error and calls \<open>exit()\<close>, which is status 0.
\<close>

record run =
  passes :: nat
  sent :: "string list"
  no_x_raw_image_urls :: bool
  exited :: "nat option"

definition loop_body :: "xenv \<Rightarrow> rows \<Rightarrow> run \<Rightarrow> run" where
  "loop_body e rs st =
     (case try_body e rs of
        ((n, qs), Inr _) \<Rightarrow>
          st\<lparr>passes := passes st + n, sent := sent st @ qs, no_x_raw_image_urls := True\<rparr>
      | ((n, qs), Inl (Exception x)) \<Rightarrow>
          st\<lparr>passes := passes st + n, sent := sent st @ qs, exited := Some 0\<rparr>
      | ((n, qs), Inl (SystemExit k)) \<Rightarrow>
          st\<lparr>passes := passes st + n, sent := sent st @ qs, exited := Some k\<rparr>)"

text \<open>\<open>while not no_x_raw_image_urls\<close>, until the flag is set or the process has ended.\<close>

function while_loop :: "xenv \<Rightarrow> rows \<Rightarrow> run \<Rightarrow> run" where
  "while_loop e rs st =
     (if no_x_raw_image_urls st \<or> exited st \<noteq> None then st
      else while_loop e rs (loop_body e rs st))"
  by pat_completeness auto
termination
  by (relation "measure (\<lambda>(e, rs, st).
                   if no_x_raw_image_urls st \<or> exited st \<noteq> None then 0 else 1)")
     (auto simp: loop_body_def split: prod.splits sum.splits raised.splits)

definition initial_run :: run where
  "initial_run = \<lparr>passes = 0, sent = [], no_x_raw_image_urls = False, exited = None\<rparr>"

text \<open>
  The whole script: an exception of the module-level query or of the final ETL query
  is not caught and ends the process with status 1.
\<close>

definition x_script :: "xenv \<Rightarrow> run" where
  "x_script e =
     (case df e of
        Inl x \<Rightarrow> initial_run\<lparr>exited := Some 1\<rparr>
      | Inr rs \<Rightarrow>
          (let st = while_loop e rs initial_run
           in if exited st \<noteq> None then st
              else (case etl_job e of
                      Some x \<Rightarrow> st\<lparr>exited := Some 1\<rparr>
                    | None \<Rightarrow> st\<lparr>exited := Some 0\<rparr>)))"

section \<open>Example inputs\<close>

text \<open>
  Pages and a network used to run the definitions: \<open>u1\<close> answers with a page that has
  no container, \<open>u2\<close> with status 404, \<open>u3\<close> with a page whose heading has no
  delimiter, every other URL with a full product page.
\<close>

definition page_without_container :: document where
  "page_without_container = \<lparr>containers = [], img = NoImgDiv\<rparr>"

definition page_heading_only :: document where
  "page_heading_only =
     \<lparr>containers = [[\<lparr>has_h3 = True, classes = None, el_text = ''Brand X''\<rparr>]],
      img = NoImgDiv\<rparr>"

definition product_page :: "string \<Rightarrow> string \<Rightarrow> document" where
  "product_page code src =
     \<lparr>containers =
        [[\<lparr>has_h3 = True, classes = None,
           el_text = ''  Brand X Effective Date: 01/01/2025 ''\<rparr>,
          \<lparr>has_h3 = False, classes = Some [''row''],
           el_text = ''NC Code:'' @ [CHR 0x0A] @ code @ [CHR 0x0A] @ ''Proof:'' @ [CHR 0x0A] @ ''80''\<rparr>]],
      img = ImgSrc src\<rparr>"

definition example_network :: network where
  "example_network k url =
     (if url = ''u1'' then Response 200 page_without_container
      else if url = ''u2'' then Response 404 page_without_container
      else if url = ''u3'' then Response 200 page_heading_only
      else Response 200 (product_page ''12345'' ''/img/a.jpg''))"

definition example_record :: item_details where
  "example_record =
     \<lparr>nc_code = ''12-345'', brand_name = ''Brand X'', effective_date = ''01/01/2025'',
      bottle_size = [], proof_value = ''80'', bottles_per_case = [], upc = [],
      retail_price = [], mxb_price = [], case_cost_less_bailment = [], distiller = [],
      product_image_url = ''https://abc2.nc.gov/img/a.jpg''\<rparr>"

definition example_env :: "string list \<Rightarrow> env" where
  "example_env urls =
     \<lparr>item_details_urls = Inr urls, http_of = example_network, upload = None, load_job = None\<rparr>"

text \<open>
  The query text that sets the image URL of one catalog code: the fresh template with
  both placeholders replaced, as the first round of the update loop builds it.
\<close>

definition update_query_for :: "string \<Rightarrow> string \<Rightarrow> string" where
  "update_query_for nc image_url =
     py_replace ''{nc_code}'' nc (py_replace ''{image_url}'' image_url update_query_template)"

text \<open>
  Runs of replace_x_image_urls.py: two rows with two different pages; and one row whose
  page names a placeholder image in the first scrape pass and the image \<open>src2\<close> in the
  second. Search APIs: one that never has an item, one that answers 429 twice and then
  has an item.
\<close>

definition two_pages_network :: "nat \<Rightarrow> network" where
  "two_pages_network n k url =
     Response 200 (if url = ''u4'' then product_page ''12345'' ''/img/a.jpg''
                   else product_page ''67890'' ''/img/b.jpg'')"

definition two_rows_xenv :: xenv where
  "two_rows_xenv =
     \<lparr>df = Inr [(''12-345'', Some ''u4''), (''67-890'', Some ''u5'')],
      http_in_pass = two_pages_network, update_job = (\<lambda>k. None), etl_job = None\<rparr>"





section \<open>Occurrences, stripping and splitting\<close>

lemma starts_with_iff: "starts_with p s = (\<exists>b. s = p @ b)"
  unfolding starts_with_def
  by (metis append_eq_conv_conj append_take_drop_id)

lemma py_contains_iff: "py_contains sub s = (\<exists>a b. s = a @ sub @ b)"
proof (induction s)
  case Nil
  then show ?case by auto
next
  case (Cons c cs)
  show ?case
  proof
    assume "py_contains sub (c # cs)"
    then consider "starts_with sub (c # cs)" | "py_contains sub cs" by auto
    then show "\<exists>a b. c # cs = a @ sub @ b"
    proof cases
      case 1
      then obtain b where "c # cs = sub @ b" by (auto simp: starts_with_iff)
      then have "c # cs = [] @ sub @ b" by simp
      then show ?thesis by blast
    next
      case 2
      then obtain a b where "cs = a @ sub @ b" using Cons.IH by auto
      then have "c # cs = (c # a) @ sub @ b" by simp
      then show ?thesis by blast
    qed
  next
    assume "\<exists>a b. c # cs = a @ sub @ b"
    then obtain a b where ab: "c # cs = a @ sub @ b" by auto
    show "py_contains sub (c # cs)"
    proof (cases a)
      case Nil
      then have "starts_with sub (c # cs)" using ab unfolding starts_with_iff by auto
      then show ?thesis by simp
    next
      case (Cons x a')
      then have "cs = a' @ sub @ b" using ab by auto
      then show ?thesis using Cons.IH by auto
    qed
  qed
qed

lemma py_strip_decomp: "\<exists>a b. s = a @ py_strip s @ b"
proof -
  let ?t = "dropWhile py_isspace s"
  have 1: "s = takeWhile py_isspace s @ ?t" by simp
  have "py_strip s @ rev (takeWhile py_isspace (rev ?t))
          = rev (takeWhile py_isspace (rev ?t) @ dropWhile py_isspace (rev ?t))"
    by (simp only: py_strip_def rev_append)
  also have "\<dots> = ?t"
    by (simp only: takeWhile_dropWhile_id rev_rev_ident)
  finally have 2: "?t = py_strip s @ rev (takeWhile py_isspace (rev ?t))" by simp
  from 1 2 have "s = takeWhile py_isspace s @ py_strip s @ rev (takeWhile py_isspace (rev ?t))"
    by metis
  then show ?thesis by blast
qed

lemma py_contains_strip: "py_contains sub (py_strip s) \<Longrightarrow> py_contains sub s"
proof -
  assume "py_contains sub (py_strip s)"
  then obtain a b where ab: "py_strip s = a @ sub @ b" by (auto simp: py_contains_iff)
  obtain a' b' where "s = a' @ py_strip s @ b'" using py_strip_decomp by blast
  then have "s = (a' @ a) @ sub @ (b @ b')" using ab by simp
  then show ?thesis unfolding py_contains_iff by blast
qed

lemma split_acc_absent:
  "\<not> py_contains sep s \<Longrightarrow> split_acc sep acc s = [rev acc @ s]"
  by (induction s arbitrary: acc) auto

lemma heading_absent:
  "\<not> py_contains delimiter txt \<Longrightarrow> heading txt r = Inl (Exception IndexError)"
proof -
  assume "\<not> py_contains delimiter txt"
  then have "\<not> py_contains delimiter (py_strip txt)"
    using py_contains_strip by blast
  then have "py_split delimiter (py_strip txt) = [py_strip txt]"
    by (simp add: py_split_def split_acc_absent)
  then show ?thesis by (simp add: heading_def)
qed

lemma heading_raises: "heading txt r = Inl x \<Longrightarrow> x = Exception IndexError"
  by (auto simp: heading_def split: list.splits)

lemma element_loop_raises:
  "element_loop es st = Inl x \<Longrightarrow> x = Exception IndexError"
proof (induction es st rule: element_loop.induct)
  case (1 st)
  then show ?case by simp
next
  case (2 e es r vals)
  then show ?case
    by (auto split: if_splits sum.splits dest: heading_raises)
qed

lemma element_loop_heading_absent:
  "e \<in> set es \<Longrightarrow> has_h3 e \<Longrightarrow> \<not> py_contains delimiter (el_text e)
     \<Longrightarrow> element_loop es st = Inl (Exception IndexError)"
proof (induction es st rule: element_loop.induct)
  case (1 st)
  then show ?case by simp
next
  case (2 e' es r vals)
  show ?case
  proof (cases "e = e'")
    case True
    then show ?thesis using 2 by (simp add: heading_absent)
  next
    case False
    then have "e \<in> set es" using 2 by simp
    then show ?thesis using 2 by (auto split: sum.splits dest: heading_raises)
  qed
qed

section \<open>Retrying, scraping and batches\<close>

subsection \<open>The retry loop\<close>

text \<open>Both recursive equations are unfolded by hand, one round at a time.\<close>

declare retry_from.simps [simp del] while_loop.simps [simp del]

lemma retry_from_returns: "fn k = Inr v \<Longrightarrow> retry_from p fn k = (k, Inr v)"
  by (subst retry_from.simps) simp

lemma retry_from_exit: "fn k = Inl (SystemExit n) \<Longrightarrow> retry_from p fn k = (k, Inl (SystemExit n))"
  by (subst retry_from.simps) (simp add: decide_def)




subsection \<open>One scrape\<close>

lemma try_block_raises:
  "snd (try_block url resp) = Inl x \<Longrightarrow> x = SystemExit 1 \<or> (\<exists>e. x = Exception e)"
  by (auto simp: try_block_def split: http_result.splits if_splits list.splits sum.splits
           dest: element_loop_raises)

lemma scrape_attempt_raises:
  assumes "snd (scrape_attempt url resp) = Inl x"
  shows "x = SystemExit 1"
proof (cases "snd (try_block url resp)")
  case (Inl y)
  then consider "y = SystemExit 1" | e where "y = Exception e"
    using try_block_raises by blast
  then show ?thesis
  proof cases
    case 1
    then show ?thesis
      using assms Inl by (cases "try_block url resp") (simp add: scrape_attempt_def)
  next
    case 2
    then show ?thesis
      using assms Inl by (cases "try_block url resp") (simp add: scrape_attempt_def)
  qed
next
  case (Inr r)
  then show ?thesis
    using assms by (cases "try_block url resp") (simp add: scrape_attempt_def)
qed

lemma scrape_never_retried:
  "scrape_item_details http url = (1, snd (scrape_attempt url (http 1 url)))"
proof (cases "snd (scrape_attempt url (http 1 url))")
  case (Inl x)
  then have "x = SystemExit 1" by (rule scrape_attempt_raises)
  then show ?thesis
    using Inl retry_from_exit [of "\<lambda>k. snd (scrape_attempt url (http k url))" 1 1]
    by (simp add: scrape_item_details_def retry_def)
next
  case (Inr r)
  then show ?thesis
    using retry_from_returns [of "\<lambda>k. snd (scrape_attempt url (http k url))" 1 r]
    by (simp add: scrape_item_details_def retry_def)
qed

lemma scrape_raises: "snd (scrape_item_details http url) = Inl x \<Longrightarrow> x = SystemExit 1"
  unfolding scrape_never_retried snd_conv by (rule scrape_attempt_raises)

lemma scrape_attempt_not_200:
  "status \<noteq> 200 \<Longrightarrow> scrape_attempt url (Response status doc)
     = ([LogInfo url, LogError url], Inl (SystemExit 1))"
  by (simp add: scrape_attempt_def try_block_def)


lemma scrape_attempt_no_container:
  "containers doc = [] \<Longrightarrow> scrape_attempt url (Response 200 doc)
     = ([LogInfo url, LogWarning url], Inr item_details_column_names)"
  by (simp add: scrape_attempt_def try_block_def)

lemma scrape_attempt_heading_absent:
  assumes "containers doc = c # cs" "e \<in> set c" "has_h3 e"
    "\<not> py_contains delimiter (el_text e)"
  shows "try_block url (Response 200 doc) = ([LogInfo url], Inl (Exception IndexError))"
    and "scrape_attempt url (Response 200 doc) = ([LogInfo url, LogError url], Inl (SystemExit 1))"
proof -
  have "element_loop c (item_details_column_names, Map.empty) = Inl (Exception IndexError)"
    using assms(2-4) by (rule element_loop_heading_absent)
  then show 1: "try_block url (Response 200 doc) = ([LogInfo url], Inl (Exception IndexError))"
    using assms(1) by (simp add: try_block_def)
  show "scrape_attempt url (Response 200 doc) = ([LogInfo url, LogError url], Inl (SystemExit 1))"
    by (simp add: scrape_attempt_def 1)
qed

subsection \<open>A batch\<close>




lemma gather_Inl: "gather ts = Inl x \<Longrightarrow> Inl x \<in> set ts"
  by (induction ts) (auto split: sum.splits)

lemma gather_fails: "Inl x \<in> set ts \<Longrightarrow> \<exists>y. gather ts = Inl y"
  by (induction ts) (auto split: sum.splits)

lemma process_urls_raises: "process_urls http urls = Inl x \<Longrightarrow> x = SystemExit 1"
proof -
  assume "process_urls http urls = Inl x"
  then have "Inl x \<in> set (map (\<lambda>url. snd (scrape_item_details http url)) urls)"
    unfolding process_urls_def by (rule gather_Inl)
  then obtain u where "snd (scrape_item_details http u) = Inl x" by auto
  then show ?thesis by (rule scrape_raises)
qed

lemma process_urls_one_fails:
  assumes "u \<in> set urls" "snd (scrape_item_details http u) = Inl x"
  shows "process_urls http urls = Inl (SystemExit 1)"
proof -
  have "Inl x \<in> set (map (\<lambda>url. snd (scrape_item_details http url)) urls)"
    using assms by force
  then obtain y where "process_urls http urls = Inl y"
    unfolding process_urls_def using gather_fails by blast
  then show ?thesis using process_urls_raises by blast
qed


lemma process_urls_loop_eq:
  "process_urls_loop http urls acc =
     (case process_urls http urls of Inl x \<Rightarrow> Inl x | Inr rs \<Rightarrow> Inr (acc @ rs))"
proof (induction urls arbitrary: acc)
  case Nil
  then show ?case by (simp add: process_urls_def)
next
  case (Cons u urls)
  show ?case
  proof (cases "snd (scrape_item_details http u)")
    case (Inl x)
    then show ?thesis by (simp add: process_urls_def)
  next
    case (Inr r)
    then show ?thesis
      using Cons.IH [of "acc @ [r]"] by (simp add: process_urls_def split: sum.splits)
  qed
qed

lemma process_urls_x_eq: "process_urls_x http urls = process_urls http urls"
  by (simp add: process_urls_x_def process_urls_loop_eq split: sum.splits)

lemma process_urls_keeps_order_aux:
  "(\<exists>rs. process_urls http urls = Inr rs)
     \<longleftrightarrow> (\<forall>u\<in>set urls. \<exists>r. snd (scrape_item_details http u) = Inr r)"
proof
  assume "\<exists>rs. process_urls http urls = Inr rs"
  then obtain rs where "process_urls http urls = Inr rs" by blast
  then show "\<forall>u\<in>set urls. \<exists>r. snd (scrape_item_details http u) = Inr r"
    using process_urls_one_fails [of _ urls http]
    by (metis Inl_Inr_False sum.exhaust)
next
  assume a: "\<forall>u\<in>set urls. \<exists>r. snd (scrape_item_details http u) = Inr r"
  show "\<exists>rs. process_urls http urls = Inr rs"
  proof (cases "process_urls http urls")
    case (Inl x)
    then have "Inl x \<in> set (map (\<lambda>url. snd (scrape_item_details http url)) urls)"
      unfolding process_urls_def by (rule gather_Inl)
    then show ?thesis using a by auto
  next
    case (Inr rs)
    then show ?thesis by blast
  qed
qed

section \<open>The catalog-code transform\<close>




section \<open>A page without the container\<close>

text \<open>
  C8: when the fetched page (status 200) has no container block, the scraper returns the
  record whose every field is the empty string; it raises nothing and makes one attempt
  only, and what it logs is a warning, not an error.
\<close>

theorem missing_container_gives_empty_record:
  "http 1 url = Response 200 doc \<Longrightarrow> containers doc = [] \<Longrightarrow>
     scrape_item_details http url =
       (1, Inr \<lparr>nc_code = [], brand_name = [], effective_date = [], bottle_size = [],
               proof_value = [], bottles_per_case = [], upc = [], retail_price = [],
               mxb_price = [], case_cost_less_bailment = [], distiller = [],
               product_image_url = []\<rparr>)
     \<and> fst (scrape_attempt url (http 1 url)) = [LogInfo url, LogWarning url]"
  by (simp add: scrape_never_retried scrape_attempt_no_container item_details_column_names_def)

theorem missing_container_gives_empty_record_witness:
  "scrape_item_details (\<lambda>k u. Response 200 \<lparr>containers = [], img = NoImgDiv\<rparr>) ''u1'' =
       (1, Inr \<lparr>nc_code = [], brand_name = [], effective_date = [], bottle_size = [],
               proof_value = [], bottles_per_case = [], upc = [], retail_price = [],
               mxb_price = [], case_cost_less_bailment = [], distiller = [],
               product_image_url = []\<rparr>)
   \<and> fst (scrape_attempt ''u1'' (Response 200 \<lparr>containers = [], img = NoImgDiv\<rparr>))
       = [LogInfo ''u1'', LogWarning ''u1'']"
  using missing_container_gives_empty_record
          [of "\<lambda>k u. Response 200 \<lparr>containers = [], img = NoImgDiv\<rparr>" "''u1''"
              "\<lparr>containers = [], img = NoImgDiv\<rparr>"]
  by simp

section \<open>A heading without the delimiter\<close>

text \<open>
  C10: when the fetched page (status 200) has the container block and one of its heading
  blocks does not contain the delimiter \<open> Effective Date: \<close>, no record comes back: the
  index access raises \<open>IndexError\<close> inside the \<open>try\<close>, the handler logs the error and
  exits, the scraper ends with \<open>SystemExit 1\<close> after one attempt, a batch holding the
  URL ends the same way, and the process ends with status 1.
\<close>

theorem heading_without_delimiter_exits:
  assumes "http 1 url = Response 200 doc"
    and "containers doc = c # cs"
    and "e \<in> set c"
    and "has_h3 e"
    and "\<not> py_contains delimiter (el_text e)"
  shows "snd (try_block url (http 1 url)) = Inl (Exception IndexError)
     \<and> fst (scrape_attempt url (http 1 url)) = [LogInfo url, LogError url]
     \<and> scrape_item_details http url = (1, Inl (SystemExit 1))
     \<and> (url \<in> set urls \<longrightarrow> process_urls http urls = Inl (SystemExit 1))
     \<and> (url \<in> set urls \<and> item_details_urls env = Inr urls \<and> http_of env = http
          \<longrightarrow> exit_status env = 1)"
proof -
  have t: "try_block url (Response 200 doc) = ([LogInfo url], Inl (Exception IndexError))"
    using assms(2-5) by (rule scrape_attempt_heading_absent(1))
  have a: "scrape_attempt url (Response 200 doc) = ([LogInfo url, LogError url], Inl (SystemExit 1))"
    using assms(2-5) by (rule scrape_attempt_heading_absent(2))
  have s: "scrape_item_details http url = (1, Inl (SystemExit 1))"
    unfolding scrape_never_retried assms(1) a by simp
  have b: "url \<in> set urls \<longrightarrow> process_urls http urls = Inl (SystemExit 1)"
    using process_urls_one_fails [of url urls http "SystemExit 1"] s by simp
  have "url \<in> set urls \<and> item_details_urls env = Inr urls \<and> http_of env = http
          \<longrightarrow> exit_status env = 1"
    using b by (simp add: exit_status_def main_def)
  moreover have "snd (try_block url (http 1 url)) = Inl (Exception IndexError)"
    unfolding assms(1) t by simp
  moreover have "fst (scrape_attempt url (http 1 url)) = [LogInfo url, LogError url]"
    unfolding assms(1) a by simp
  ultimately show ?thesis using s b by blast
qed

theorem heading_without_delimiter_exits_witness:
  "\<not> py_contains delimiter ''Brand X''
   \<and> scrape_item_details
       (\<lambda>k u. Response 200
          \<lparr>containers = [[\<lparr>has_h3 = True, classes = None, el_text = ''Brand X''\<rparr>]],
           img = NoImgDiv\<rparr>) ''u1'' = (1, Inl (SystemExit 1))
   \<and> exit_status
       \<lparr>item_details_urls = Inr [''u1''],
        http_of = (\<lambda>k u. Response 200
          \<lparr>containers = [[\<lparr>has_h3 = True, classes = None, el_text = ''Brand X''\<rparr>]],
           img = NoImgDiv\<rparr>),
        upload = None, load_job = None\<rparr> = 1"
proof -
  have d: "\<not> py_contains delimiter ''Brand X''"
    by (simp add: delimiter_def starts_with_def)
  show ?thesis
    using d heading_without_delimiter_exits
          [of "\<lambda>k u. Response 200
                 \<lparr>containers = [[\<lparr>has_h3 = True, classes = None, el_text = ''Brand X''\<rparr>]],
                  img = NoImgDiv\<rparr>"
              "''u1''"
              "\<lparr>containers = [[\<lparr>has_h3 = True, classes = None, el_text = ''Brand X''\<rparr>]],
                img = NoImgDiv\<rparr>"
              "[\<lparr>has_h3 = True, classes = None, el_text = ''Brand X''\<rparr>]" "[]"
              "\<lparr>has_h3 = True, classes = None, el_text = ''Brand X''\<rparr>"
              "[''u1'']"
              "\<lparr>item_details_urls = Inr [''u1''],
                http_of = (\<lambda>k u. Response 200
                  \<lparr>containers = [[\<lparr>has_h3 = True, classes = None, el_text = ''Brand X''\<rparr>]],
                   img = NoImgDiv\<rparr>),
                upload = None, load_job = None\<rparr>"]
    by simp
qed

subsection \<open>The example network\<close>

lemma example_u1:
  "scrape_item_details example_network ''u1'' = (1, Inr item_details_column_names)"
  unfolding scrape_never_retried
  by (simp add: example_network_def scrape_attempt_no_container page_without_container_def)

lemma example_u2: "scrape_item_details example_network ''u2'' = (1, Inl (SystemExit 1))"
  unfolding scrape_never_retried
  by (simp add: example_network_def scrape_attempt_not_200)

lemma example_u4_attempt:
  "scrape_attempt ''u4'' (Response 200 (product_page ''12345'' ''/img/a.jpg''))
     = ([LogInfo ''u4''], Inr example_record)"
  by code_simp

lemma example_u4: "scrape_item_details example_network ''u4'' = (1, Inr example_record)"
  unfolding scrape_never_retried
  by (simp add: example_network_def example_u4_attempt)

section \<open>A failed fetch in a batch\<close>




section \<open>The order of the results\<close>




section \<open>The retry policy\<close>

lemma wait_exponential_mono: "n \<le> m \<Longrightarrow> wait_exponential p n \<le> wait_exponential p m"
proof -
  assume "n \<le> m"
  then have "(2::nat) ^ n \<le> 2 ^ m" by (simp add: power_increasing)
  then have "multiplier p * 2 ^ n \<le> multiplier p * 2 ^ m" by (rule mult_le_mono2)
  then show ?thesis unfolding wait_exponential_def by (simp add: max.coboundedI2 min.coboundedI1)
qed

text \<open>
  C9: for a transient failure the delay decided at a later attempt is never less than the
  delay decided at an earlier one (in particular from attempt n to attempt n+1); the delay
  lies in the window from \<open>min\<close> to \<open>max\<close>; and from the attempt bound on the policy
  decides to give up, whatever the failure.
\<close>

theorem retry_policy_backoff_monotonic:
  "(n \<le> m \<and> decide p n Transient = RetryAfter d \<and> decide p m Transient = RetryAfter d'
      \<longrightarrow> d \<le> d')
   \<and> (decide p n Transient = RetryAfter d \<and> min_wait p \<le> max_wait p
      \<longrightarrow> min_wait p \<le> d \<and> d \<le> max_wait p)
   \<and> (stop_after_attempt p \<le> n \<longrightarrow> decide p n kind = GiveUp)
   \<and> (n < stop_after_attempt p \<longrightarrow> decide p n Transient = RetryAfter (wait_exponential p n))"
proof -
  have 1: "n \<le> m \<and> decide p n Transient = RetryAfter d \<and> decide p m Transient = RetryAfter d'
      \<longrightarrow> d \<le> d'"
    using wait_exponential_mono [of n m p] by (auto simp: decide_def split: if_splits)
  have 2: "decide p n Transient = RetryAfter d \<and> min_wait p \<le> max_wait p
      \<longrightarrow> min_wait p \<le> d \<and> d \<le> max_wait p"
    by (auto simp: decide_def wait_exponential_def split: if_splits)
  have 3: "stop_after_attempt p \<le> n \<longrightarrow> decide p n kind = GiveUp"
    by (simp add: decide_def)
  have 4: "n < stop_after_attempt p \<longrightarrow> decide p n Transient = RetryAfter (wait_exponential p n)"
    by (simp add: decide_def)
  from 1 2 3 4 show ?thesis by blast
qed

theorem retry_policy_backoff_monotonic_witness:
  "decide image_search_policy 3 Transient = RetryAfter 8
   \<and> decide image_search_policy 4 Transient = RetryAfter 15
   \<and> (8::nat) \<le> 15
   \<and> min_wait image_search_policy \<le> 8 \<and> 8 \<le> max_wait image_search_policy
   \<and> decide image_search_policy 30 Transient = GiveUp
   \<and> decide item_details_policy 3 Transient = GiveUp
   \<and> decide item_details_policy 2 Transient = RetryAfter 4"
proof -
  have a: "decide image_search_policy 3 Transient = RetryAfter 8"
    by (simp add: decide_def image_search_policy_def wait_exponential_def)
  have b: "decide image_search_policy 4 Transient = RetryAfter 15"
    by (simp add: decide_def image_search_policy_def wait_exponential_def)
  have c: "min_wait image_search_policy \<le> max_wait image_search_policy"
    by (simp add: image_search_policy_def)
  have s: "stop_after_attempt image_search_policy \<le> 30" "stop_after_attempt item_details_policy \<le> 3"
    "2 < stop_after_attempt item_details_policy"
    by (simp_all add: image_search_policy_def item_details_policy_def)
  have w: "wait_exponential item_details_policy 2 = 4"
    by (simp add: item_details_policy_def wait_exponential_def)
  show ?thesis
    using a b c s w
      retry_policy_backoff_monotonic [of 3 4 image_search_policy 8 15 Transient]
      retry_policy_backoff_monotonic [of 30 30 image_search_policy 0 0 Transient]
      retry_policy_backoff_monotonic [of 3 3 item_details_policy 0 0 Transient]
      retry_policy_backoff_monotonic [of 2 2 item_details_policy 0 0 Transient]
    by simp
qed

section \<open>The exit status\<close>

lemma loop_body_done:
  "no_x_raw_image_urls (loop_body e rs st) \<or> exited (loop_body e rs st) \<noteq> None"
  by (auto simp: loop_body_def split: prod.splits sum.splits raised.splits)

lemma while_loop_once: "while_loop e rs initial_run = loop_body e rs initial_run"
proof -
  have "while_loop e rs initial_run = while_loop e rs (loop_body e rs initial_run)"
    by (subst while_loop.simps) (simp add: initial_run_def)
  also have "\<dots> = loop_body e rs initial_run"
    using loop_body_done [of e rs initial_run] by (subst while_loop.simps) auto
  finally show ?thesis .
qed

lemma replace_x_raw_image_urls_fails:
  assumes "u \<in> set (valid_urls rs)" "snd (scrape_item_details http u) = Inl y"
  shows "replace_x_raw_image_urls http rs = Inl (SystemExit 1)"
proof -
  have "valid_urls rs \<noteq> []" using assms(1) by auto
  moreover have "process_urls_x http (valid_urls rs) = Inl (SystemExit 1)"
    unfolding process_urls_x_eq using assms by (rule process_urls_one_fails)
  ultimately show ?thesis by (simp add: replace_x_raw_image_urls_def)
qed

text \<open>
  C4, as stated: the process exits with a non-zero status only for a failure that is not
  record-local. It does not: with the upstream query, the upload and the load job all
  succeeding, the single 404 of \<open>u2\<close> ends scrape_item_details.py with status 1.
\<close>

theorem record_local_failure_exits_nonzero:
  "item_details_urls (example_env [''u4'', ''u2'']) = Inr [''u4'', ''u2'']
   \<and> upload (example_env [''u4'', ''u2'']) = None
   \<and> load_job (example_env [''u4'', ''u2'']) = None
   \<and> snd (scrape_item_details example_network ''u4'') = Inr example_record
   \<and> exit_status (example_env [''u4'', ''u2'']) = 1"
  by (simp add: example_env_def exit_status_def main_def process_urls_def example_u2 example_u4)

text \<open>
  C4, amended: scrape_item_details.py exits with status 0 exactly when the upstream query
  succeeds, every record's fetch and extraction return a record (a record with empty
  fields counts) and the load job succeeds, whether or not the upload to the bucket
  failed; in every other case, a single record's failed fetch included, it exits with
  status 1. replace_x_image_urls.py exits with status 1 when its upstream query fails,
  when a record's fetch fails in the first scrape pass, and when the final ETL query
  fails after the loop has finished.
\<close>

theorem exit_status_characterised:
  "exit_status e =
     (if (\<exists>urls. item_details_urls e = Inr urls
            \<and> (\<forall>u\<in>set urls. \<exists>r. snd (scrape_item_details (http_of e) u) = Inr r))
         \<and> load_job e = None
      then 0 else 1)
   \<and> ((\<exists>x. df xe = Inl x) \<longrightarrow> exited (x_script xe) = Some 1)
   \<and> (df xe = Inr rs \<and> u \<in> set (valid_urls rs)
        \<and> (\<exists>y. snd (scrape_item_details (http_in_pass xe 1) u) = Inl y)
      \<longrightarrow> exited (x_script xe) = Some 1)
   \<and> (df xe = Inr rs \<and> exited (while_loop xe rs initial_run) = None \<and> etl_job xe \<noteq> None
      \<longrightarrow> exited (x_script xe) = Some 1)"
proof -
  have 1: "exit_status e =
     (if (\<exists>urls. item_details_urls e = Inr urls
            \<and> (\<forall>u\<in>set urls. \<exists>r. snd (scrape_item_details (http_of e) u) = Inr r))
         \<and> load_job e = None
      then 0 else 1)"
  proof (cases "item_details_urls e")
    case (Inl x)
    then show ?thesis by (simp add: exit_status_def main_def)
  next
    case (Inr urls)
    show ?thesis
    proof (cases "process_urls (http_of e) urls")
      case (Inl x)
      then have "x = SystemExit 1" by (rule process_urls_raises)
      moreover have "\<not> (\<forall>u\<in>set urls. \<exists>r. snd (scrape_item_details (http_of e) u) = Inr r)"
        using Inl process_urls_keeps_order_aux [of "http_of e" urls] by auto
      ultimately show ?thesis
        using Inl Inr by (simp add: exit_status_def main_def)
    next
      case r: (Inr results)
      then have "\<forall>u\<in>set urls. \<exists>r. snd (scrape_item_details (http_of e) u) = Inr r"
        using process_urls_keeps_order_aux [of "http_of e" urls] by blast
      then show ?thesis
        using r Inr
        by (cases "load_job e")
           (simp_all add: exit_status_def main_def df_to_gcloud_storage_bucket_def
                          load_csv_to_bigquery_def split: option.splits)
    qed
  qed
  have 2: "(\<exists>x. df xe = Inl x) \<longrightarrow> exited (x_script xe) = Some 1"
    by (auto simp: x_script_def)
  have 3: "df xe = Inr rs \<and> u \<in> set (valid_urls rs)
        \<and> (\<exists>y. snd (scrape_item_details (http_in_pass xe 1) u) = Inl y)
      \<longrightarrow> exited (x_script xe) = Some 1"
  proof (intro impI, elim conjE exE)
    fix y
    assume d: "df xe = Inr rs" and "u \<in> set (valid_urls rs)"
      and "snd (scrape_item_details (http_in_pass xe 1) u) = Inl y"
    then have "replace_x_raw_image_urls (http_in_pass xe 1) rs = Inl (SystemExit 1)"
      by (simp add: replace_x_raw_image_urls_fails)
    then have "exited (loop_body xe rs initial_run) = Some 1"
      by (simp add: loop_body_def try_body_def)
    then show "exited (x_script xe) = Some 1"
      using d by (simp add: x_script_def while_loop_once Let_def)
  qed
  have 4: "df xe = Inr rs \<and> exited (while_loop xe rs initial_run) = None \<and> etl_job xe \<noteq> None
      \<longrightarrow> exited (x_script xe) = Some 1"
    by (auto simp: x_script_def Let_def)
  from 1 2 3 4 show ?thesis by blast
qed

theorem exit_status_characterised_witness:
  "exit_status (example_env [''u4'', ''u1'']) = 0
   \<and> exit_status (example_env [''u4'', ''u2'']) = 1
   \<and> exited (x_script (two_rows_xenv\<lparr>df := Inl QueryError\<rparr>)) = Some 1
   \<and> exited (x_script (two_rows_xenv\<lparr>http_in_pass := (\<lambda>n. example_network),
                                        df := Inr [(''1'', Some ''u2'')]\<rparr>)) = Some 1
   \<and> exited (x_script (two_rows_xenv\<lparr>etl_job := Some QueryError\<rparr>)) = Some 1"
proof -
  have v: "valid_urls [(''1'', Some ''u2'')] = [''u2'']"
    by code_simp
  have w: "exited (while_loop (two_rows_xenv\<lparr>etl_job := Some QueryError\<rparr>)
                     [(''12-345'', Some ''u4''), (''67-890'', Some ''u5'')] initial_run) = None"
    by code_simp
  show ?thesis
    using v w example_u1 example_u2 example_u4
      exit_status_characterised
        [of "example_env [''u4'', ''u1'']" "two_rows_xenv\<lparr>df := Inl QueryError\<rparr>" "[]" "[]"]
      exit_status_characterised
        [of "example_env [''u4'', ''u2'']"
            "two_rows_xenv\<lparr>http_in_pass := (\<lambda>n. example_network), df := Inr [(''1'', Some ''u2'')]\<rparr>"
            "[(''1'', Some ''u2'')]" "''u2''"]
      exit_status_characterised
        [of "example_env [''u4'', ''u2'']" "two_rows_xenv\<lparr>etl_job := Some QueryError\<rparr>"
            "[(''12-345'', Some ''u4''), (''67-890'', Some ''u5'')]" "[]"]
    by (simp add: example_env_def two_rows_xenv_def)
qed

section \<open>The image search without items\<close>







section \<open>The update loop\<close>

text \<open>
  C2 at two rows whose pages scrape to the pairs (12-345, .../img/a.jpg) and
  (67-890, .../img/b.jpg): the second query handed to the warehouse is the first one
  again, the update of 12-345, and not the update of 67-890, because the loop overwrites
  its template in the first round.
\<close>

theorem second_update_repeats_first:
  "replace_x_raw_image_urls (two_pages_network 1) [(''12-345'', Some ''u4''), (''67-890'', Some ''u5'')]
     = Inr ([''12-345'', ''67-890''],
            [''https://abc2.nc.gov/img/a.jpg'', ''https://abc2.nc.gov/img/b.jpg''])
   \<and> sent (x_script two_rows_xenv)
     = [update_query_for ''12-345'' ''https://abc2.nc.gov/img/a.jpg'',
        update_query_for ''12-345'' ''https://abc2.nc.gov/img/a.jpg'']
   \<and> update_query_for ''67-890'' ''https://abc2.nc.gov/img/b.jpg''
       \<noteq> update_query_for ''12-345'' ''https://abc2.nc.gov/img/a.jpg''
   \<and> update_query_for ''12-345'' ''https://abc2.nc.gov/img/a.jpg''
     = [CHR 0x0A] @ ''            UPDATE `agile-planet-462621-j7`.nc_abc.backfill_missing_image_urls''
       @ [CHR 0x0A] @ ''                SET image_url = '' @ [CHR 0x27]
       @ ''https://abc2.nc.gov/img/a.jpg'' @ [CHR 0x27]
       @ [CHR 0x0A] @ ''            WHERE nc_code = '' @ [CHR 0x27] @ ''12-345'' @ [CHR 0x27]
       @ [CHR 0x0A] @ ''            ''"
  by code_simp

section \<open>The convergence loop\<close>









end
